theory Spec2Isabelle
  imports Complex_Main
begin

section \<open>The 1-D membrane channel control volume (watertap/core/membrane_channel1d.py)\<close>

text \<open>
  The class \<open>MembraneChannel1DBlockData\<close> extends two classes whose code is not part of
  the file: \<open>MembraneChannelMixin\<close> and the control volume \<open>ControlVolume1DBlockData\<close> of
  the IDAES library. Every method of the class starts with a call of the inherited method.
  The inherited method is a parameter of the model (the first argument, named
  \<open>super_...\<close>): a function from the block to an error or the block it leaves behind.

  Python floats only occur as constants and in comparisons for equality (no arithmetic), and
  are modelled as \<open>real\<close>.

  A method that raises returns the error alone: what it had changed in the block before it
  raised is not part of the result.
\<close>

subsection \<open>Exceptions and enumerations\<close>

datatype error =
    AttributeError
  | IndexError
  | KeyError
  | ValueError
  | ConfigurationError
  | RuntimeError

datatype FlowDirection = forward | backward


subsection \<open>Variables, the scaling suffix and the block\<close>

text \<open>
  Pyomo components are objects, and two attribute names may be bound to the same object.
  An object is identified by a reference. An indexed variable owns one data object per
  index; a scalar variable is its own single data object. A handle names what a scaling
  factor or a value is attached to: a component, or the data object of a component at an index.
\<close>

type_synonym ref = nat

type_synonym key = "real list"

datatype handle = Comp ref | Data ref key

type_synonym index2 = "real \<times> real"

text \<open>\<open>properties[t, x].temperature\<close>, the only kind of term in the isothermal equation.\<close>

datatype expr = temperature real real

text \<open>What a constraint rule returns: \<open>Constraint.Skip\<close> or the relation \<open>lhs == rhs\<close>.\<close>

datatype rule_result = Skip | Equality expr expr

record block =
  time :: "real list"                                 \<comment> \<open>\<open>self.flowsheet().config.time\<close>\<close>
  flow_direction :: FlowDirection                     \<comment> \<open>kept by the inherited \<open>add_geometry\<close>\<close>
  length_domain :: "real list"                        \<comment> \<open>the ordered set, in iteration order\<close>
  first_element :: "real option"
  difference_elements :: "real list option"
  nfe :: "nat option"
  properties :: "index2 list option"                  \<comment> \<open>indices of the bulk state block\<close>
  properties_interface :: "index2 list option"
  eq_feed_isothermal :: "(index2 \<times> expr \<times> expr) list option"
  area :: "ref option"
  deltaP :: "ref option"
  dP_dx :: "ref option"
  pressure_dx :: "ref option"
  pressure_change_total :: "ref option"
  n_vars :: nat                                       \<comment> \<open>variable objects are the references below\<close>
  var_keys :: "ref \<Rightarrow> key list option"                 \<comment> \<open>\<open>None\<close>: scalar; \<open>Some ks\<close>: indexed by \<open>ks\<close>\<close>
  var_value :: "handle \<Rightarrow> real option"
  var_fixed :: "handle \<Rightarrow> bool"
  scaling_factor :: "handle \<Rightarrow> real option"           \<comment> \<open>the \<open>scaling_factor\<close> suffix\<close>

text \<open>An attribute that was never created is \<open>None\<close>; \<open>hasattr\<close> tests for that.\<close>

definition hasattr :: "'a option \<Rightarrow> bool" where
  "hasattr a = (a \<noteq> None)"

text \<open>Reading an attribute that does not exist raises \<open>AttributeError\<close>.\<close>

definition getattr :: "'a option \<Rightarrow> error + 'a" where
  "getattr a = (case a of None \<Rightarrow> Inl AttributeError | Some v \<Rightarrow> Inr v)"

subsection \<open>Ordered sets\<close>

text \<open>\<open>first()\<close> of an ordered set: its first member, \<open>IndexError\<close> on the empty set.\<close>

definition first :: "'a list \<Rightarrow> error + 'a" where
  "first xs = (case xs of [] \<Rightarrow> Inl IndexError | x # _ \<Rightarrow> Inr x)"

text \<open>
  \<open>Set(ordered=True, initialize=...)\<close>: the members in the order of insertion; a value
  that is already a member is not inserted again.
\<close>

fun Set_ordered_insert :: "'a list \<Rightarrow> 'a list \<Rightarrow> 'a list" where
  "Set_ordered_insert acc [] = acc"
| "Set_ordered_insert acc (x # xs) =
     (if x \<in> set acc then Set_ordered_insert acc xs else Set_ordered_insert (acc @ [x]) xs)"

definition Set_ordered :: "'a list \<Rightarrow> 'a list" where
  "Set_ordered xs = Set_ordered_insert [] xs"

text \<open>
  The invariant of a Pyomo \<open>ContinuousSet\<close>: it is kept sorted, without repetition, and it
  holds its bounds, so it is not empty.
\<close>

definition ContinuousSet :: "real list \<Rightarrow> bool" where
  "ContinuousSet xs = (xs \<noteq> [] \<and> sorted_wrt (<) xs)"

subsection \<open>apply_transformation\<close>

definition apply_transformation :: "(block \<Rightarrow> error + block) \<Rightarrow> block \<Rightarrow> error + block" where
  "apply_transformation super_apply_transformation self =
     (case super_apply_transformation self of
        Inl e \<Rightarrow> Inl e
      | Inr self1 \<Rightarrow>
          (case first (length_domain self1) of
             Inl e \<Rightarrow> Inl e
           | Inr fe \<Rightarrow>
               let self2 = self1\<lparr>first_element := Some fe\<rparr>;
                   de = Set_ordered
                          (filter (\<lambda>x. Some x \<noteq> first_element self2) (length_domain self2));
                   self3 = self2\<lparr>difference_elements := Some de\<rparr>
               in Inr (self3\<lparr>nfe := Some (length de)\<rparr>)))"

subsection \<open>add_state_blocks\<close>

text \<open>
  Modelled from the spec: \<open>_add_interface_stateblock\<close> of \<open>MembraneChannelMixin\<close>, which is
  not in the file. It attaches the interface state block, "one per existing bulk state index,
  keyed identically".
\<close>

definition add_interface_stateblock :: "bool option \<Rightarrow> block \<Rightarrow> error + block" where
  "add_interface_stateblock has_phase_equilibrium self =
     (case getattr (properties self) of
        Inl e \<Rightarrow> Inl e
      | Inr ks \<Rightarrow> Inr (self\<lparr>properties_interface := Some ks\<rparr>))"

definition add_state_blocks ::
  "(FlowDirection \<Rightarrow> bool option \<Rightarrow> block \<Rightarrow> error + block) \<Rightarrow>
   FlowDirection \<Rightarrow> bool option \<Rightarrow> block \<Rightarrow> error + block" where
  "add_state_blocks super_add_state_blocks information_flow has_phase_equilibrium self =
     (case super_add_state_blocks information_flow has_phase_equilibrium self of
        Inl e \<Rightarrow> Inl e
      | Inr self1 \<Rightarrow>
          (case first (length_domain self1) of
             Inl e \<Rightarrow> Inl e
           | Inr fe \<Rightarrow>
               add_interface_stateblock has_phase_equilibrium (self1\<lparr>first_element := Some fe\<rparr>)))"

subsection \<open>add_total_enthalpy_balances\<close>

text \<open>The method ignores its keyword arguments and returns \<open>None\<close>; the block is the second component.\<close>

definition add_total_enthalpy_balances :: "'kw \<Rightarrow> block \<Rightarrow> unit option \<times> block" where
  "add_total_enthalpy_balances kwrags self = (None, self)"

text \<open>The data objects of a variable, as \<open>v.values()\<close> lists them.\<close>

definition values_of :: "block \<Rightarrow> ref \<Rightarrow> handle list" where
  "values_of self r = (case var_keys self r of None \<Rightarrow> [Comp r] | Some ks \<Rightarrow> map (Data r) ks)"

text \<open>
  Modelled from the spec: the degrees of freedom of the glossary, the "count of unconstrained
  variables in a simultaneous equation system": the data objects of the block's variables that
  are not fixed, less the equality constraints of the block.
\<close>

definition n_unfixed :: "block \<Rightarrow> nat" where
  "n_unfixed self =
     sum_list (map (\<lambda>r. length (filter (\<lambda>h. \<not> var_fixed self h) (values_of self r)))
                   [0..<n_vars self])"

definition n_constraints :: "block \<Rightarrow> nat" where
  "n_constraints self = (case eq_feed_isothermal self of None \<Rightarrow> 0 | Some cs \<Rightarrow> length cs)"

definition degrees_of_freedom :: "block \<Rightarrow> int" where
  "degrees_of_freedom self = int (n_unfixed self) - int (n_constraints self)"

subsection \<open>add_isothermal_conditions\<close>

text \<open>\<open>b.properties[t, x].temperature\<close>: the state block must exist and have the index.\<close>

definition properties_temperature :: "block \<Rightarrow> real \<Rightarrow> real \<Rightarrow> error + expr" where
  "properties_temperature b t x =
     (case getattr (properties b) of
        Inl e \<Rightarrow> Inl e
      | Inr ks \<Rightarrow> if (t, x) \<in> set ks then Inr (temperature t x) else Inl KeyError)"

definition eq_feed_isothermal_rule :: "block \<Rightarrow> real \<Rightarrow> real \<Rightarrow> error + rule_result" where
  "eq_feed_isothermal_rule b t x =
     (case first (length_domain b) of
        Inl e \<Rightarrow> Inl e
      | Inr fe \<Rightarrow>
          if x = fe then Inr Skip
          else (case properties_temperature b t fe of
                  Inl e \<Rightarrow> Inl e
                | Inr lhs \<Rightarrow>
                    (case properties_temperature b t x of
                       Inl e \<Rightarrow> Inl e
                     | Inr rhs \<Rightarrow> Inr (Equality lhs rhs))))"

text \<open>
  An indexed \<open>Constraint\<close> calls its rule at every index, in the order of the index set, and
  keeps an entry for each index where the rule did not return \<open>Constraint.Skip\<close>.
\<close>

fun Constraint :: "(real \<Rightarrow> real \<Rightarrow> error + rule_result) \<Rightarrow> index2 list \<Rightarrow>
    error + (index2 \<times> expr \<times> expr) list" where
  "Constraint rule [] = Inr []"
| "Constraint rule ((t, x) # ixs) =
     (case rule t x of
        Inl e \<Rightarrow> Inl e
      | Inr Skip \<Rightarrow> Constraint rule ixs
      | Inr (Equality lhs rhs) \<Rightarrow>
          (case Constraint rule ixs of
             Inl e \<Rightarrow> Inl e
           | Inr cs \<Rightarrow> Inr (((t, x), (lhs, rhs)) # cs)))"

text \<open>
  The decorator adds the constraint to the block under the name of the rule, with an index
  set of its own. A block that already has \<open>eq_feed_isothermal\<close> has that index set too,
  and adding it again is refused with \<open>RuntimeError\<close>, before the rule is called.
\<close>

definition add_isothermal_conditions :: "(block \<Rightarrow> error + block) \<Rightarrow> block \<Rightarrow> error + block" where
  "add_isothermal_conditions super_add_isothermal_conditions self =
     (case super_add_isothermal_conditions self of
        Inl e \<Rightarrow> Inl e
      | Inr self1 \<Rightarrow>
          if hasattr (eq_feed_isothermal self1) then Inl RuntimeError
          else (case Constraint (eq_feed_isothermal_rule self1)
                       (List.product (time self1) (length_domain self1)) of
                  Inl e \<Rightarrow> Inl e
                | Inr cs \<Rightarrow> Inr (self1\<lparr>eq_feed_isothermal := Some cs\<rparr>)))"

text \<open>What an equality constraint says of a temperature field \<open>T\<close>.\<close>

fun expr_value :: "(real \<Rightarrow> real \<Rightarrow> real) \<Rightarrow> expr \<Rightarrow> real" where
  "expr_value T (temperature t x) = T t x"

definition satisfied :: "(real \<Rightarrow> real \<Rightarrow> real) \<Rightarrow> expr \<times> expr \<Rightarrow> bool" where
  "satisfied T c = (expr_value T (fst c) = expr_value T (snd c))"

subsection \<open>_add_pressure_change\<close>

text \<open>
  \<open>add_object_reference(self, "dP_dx", self.deltaP)\<close> binds the name \<open>dP_dx\<close> to the
  object that \<open>deltaP\<close> is bound to. \<open>self.deltaP\<close> is read first. The argument
  \<open>pressure_change_type\<close> is of the enumeration \<open>PressureChangeType\<close>, which is declared
  outside the file; its type is a parameter.
\<close>

definition add_pressure_change :: "'p \<Rightarrow> block \<Rightarrow> error + block" where
  "add_pressure_change pressure_change_type self =
     (case getattr (deltaP self) of
        Inl e \<Rightarrow> Inl e
      | Inr r \<Rightarrow> Inr (self\<lparr>dP_dx := Some r\<rparr>))"

text \<open>Writing and reading the value of the data object of a variable at an index.\<close>

definition set_value :: "ref \<Rightarrow> key \<Rightarrow> real \<Rightarrow> block \<Rightarrow> block" where
  "set_value r k v self = self\<lparr>var_value := (var_value self)(Data r k := Some v)\<rparr>"

definition get_value :: "ref \<Rightarrow> key \<Rightarrow> block \<Rightarrow> real option" where
  "get_value r k self = var_value self (Data r k)"

subsection \<open>calculate_scaling_factors\<close>

text \<open>
  Modelled from the spec: the scaling registry of the IDAES library, "a key-value store keyed
  by variable identity" with \<open>get_scaling_factor(variable) -> Optional[float]\<close> and
  \<open>set_scaling_factor(variable, float)\<close>.
\<close>

definition get_scaling_factor :: "block \<Rightarrow> handle \<Rightarrow> real option" where
  "get_scaling_factor self h = scaling_factor self h"

definition set_scaling_factor :: "handle \<Rightarrow> real \<Rightarrow> block \<Rightarrow> block" where
  "set_scaling_factor h sf self = self\<lparr>scaling_factor := (scaling_factor self)(h := Some sf)\<rparr>"

text \<open>The loop over \<open>self.pressure_change_total.values()\<close>.\<close>

fun pressure_change_total_loop :: "handle list \<Rightarrow> block \<Rightarrow> block" where
  "pressure_change_total_loop [] self = self"
| "pressure_change_total_loop (v # vs) self =
     pressure_change_total_loop vs
       (if get_scaling_factor self v = None then set_scaling_factor v (1 / 10000) self else self)"

text \<open>The loops over \<open>self.pressure_dx.values()\<close>, with the factor of the branch.\<close>

fun pressure_dx_loop :: "real \<Rightarrow> handle list \<Rightarrow> block \<Rightarrow> block" where
  "pressure_dx_loop sf [] self = self"
| "pressure_dx_loop sf (v # vs) self = pressure_dx_loop sf vs (set_scaling_factor v sf self)"

definition calculate_scaling_factors :: "(block \<Rightarrow> error + block) \<Rightarrow> block \<Rightarrow> error + block" where
  "calculate_scaling_factors super_calculate_scaling_factors self =
     (case super_calculate_scaling_factors self of
        Inl e \<Rightarrow> Inl e
      | Inr self1 \<Rightarrow>
          (case getattr (area self1) of
             Inl e \<Rightarrow> Inl e
           | Inr a \<Rightarrow>
               let self2 = (if get_scaling_factor self1 (Comp a) = Some 1
                            then set_scaling_factor (Comp a) 100 self1 else self1);
                   self3 = (case pressure_change_total self2 of
                              None \<Rightarrow> self2
                            | Some p \<Rightarrow> pressure_change_total_loop (values_of self2 p) self2)
               in if hasattr (dP_dx self3)
                  then (case getattr (pressure_dx self3) of
                          Inl e \<Rightarrow> Inl e
                        | Inr d \<Rightarrow> Inr (pressure_dx_loop (1 / 100000) (values_of self3 d) self3))
                  else (case getattr (pressure_dx self3) of
                          Inl e \<Rightarrow> Inl e
                        | Inr d \<Rightarrow> Inr (pressure_dx_loop 100000 (values_of self3 d) self3))))"

text \<open>
  An inherited scaling routine for the examples. It does what the comment of the file says of
  the control volume ("default of 1 set by ControlVolume1D"): a missing factor of the area
  becomes 1, and nothing else changes.
\<close>

definition ControlVolume1D_calculate_scaling_factors :: "block \<Rightarrow> error + block" where
  "ControlVolume1D_calculate_scaling_factors self =
     (case getattr (area self) of
        Inl e \<Rightarrow> Inl e
      | Inr a \<Rightarrow>
          Inr (if get_scaling_factor self (Comp a) = None
               then set_scaling_factor (Comp a) 1 self else self))"

subsection \<open>The configuration block\<close>















subsection \<open>Auxiliary notions for the statements\<close>

text \<open>The object that a handle belongs to.\<close>

fun handle_ref :: "handle \<Rightarrow> ref" where
  "handle_ref (Comp r) = r"
| "handle_ref (Data r k) = r"

text \<open>
  What the three passes of \<open>calculate_scaling_factors\<close> do to the suffix: the pass on the
  area \<open>a\<close>, the pass on the entries \<open>vs\<close> of \<open>pressure_change_total\<close> and the pass on the
  entries \<open>vs\<close> of \<open>pressure_dx\<close> with the factor \<open>sf\<close>.
\<close>

definition area_pass :: "ref \<Rightarrow> (handle \<Rightarrow> real option) \<Rightarrow> handle \<Rightarrow> real option" where
  "area_pass a f = (if f (Comp a) = Some 1 then f(Comp a := Some 100) else f)"

definition total_pass :: "handle list \<Rightarrow> (handle \<Rightarrow> real option) \<Rightarrow> handle \<Rightarrow> real option" where
  "total_pass vs f = (\<lambda>h. if h \<in> set vs \<and> f h = None then Some (1 / 10000) else f h)"

definition gradient_pass ::
  "real \<Rightarrow> handle list \<Rightarrow> (handle \<Rightarrow> real option) \<Rightarrow> handle \<Rightarrow> real option" where
  "gradient_pass sf vs f = (\<lambda>h. if h \<in> set vs then Some sf else f h)"

text \<open>
  A channel with two time points and a length domain of three points, its state blocks built,
  with a scalar area (object 0) and three variables indexed by time (objects 1 to 3).
\<close>

definition example_block :: block where
  "example_block =
     \<lparr>time = [0, 1], flow_direction = backward, length_domain = [0, 1 / 2, 1],
      first_element = None, difference_elements = None, nfe = None,
      properties = Some (List.product [0, 1] [0, 1 / 2, 1]), properties_interface = None,
      eq_feed_isothermal = None,
      area = Some 0, deltaP = Some 1, dP_dx = None, pressure_dx = Some 2,
      pressure_change_total = Some 3, n_vars = 4,
      var_keys = (\<lambda>r. if r = 0 then None else Some [[0], [1]]),
      var_value = (\<lambda>h. None), var_fixed = (\<lambda>h. False),
      scaling_factor = (\<lambda>h. None)\<rparr>"


text \<open>An inherited \<open>add_state_blocks\<close> that builds a state block at every time and point.\<close>

definition build_example :: "FlowDirection \<Rightarrow> bool option \<Rightarrow> block \<Rightarrow> error + block" where
  "build_example information_flow has_phase_equilibrium self =
     Inr (self\<lparr>properties := Some (List.product (time self) (length_domain self))\<rparr>)"

text \<open>
  What the statements about a second call of \<open>calculate_scaling_factors\<close> suppose of the
  inherited scaling routine, which runs again: between the block \<open>b\<close> that it receives and
  the block \<open>b'\<close> that it leaves, the attributes and the index sets of the variables are the
  same, and a scaling factor that was set is still set to the same value.
\<close>

definition keeps_factors :: "block \<Rightarrow> block \<Rightarrow> bool" where
  "keeps_factors b b' =
     (area b' = area b \<and> dP_dx b' = dP_dx b \<and> pressure_dx b' = pressure_dx b \<and>
      pressure_change_total b' = pressure_change_total b \<and> var_keys b' = var_keys b \<and>
      (\<forall>h sf. scaling_factor b h = Some sf \<longrightarrow> scaling_factor b' h = Some sf))"






text \<open>
  The example channel after a first call of \<open>calculate_scaling_factors\<close>, and the same with
  the factor of the area then set to 1 by the user.
\<close>

definition example_first_call :: block where
  "example_first_call =
     projr (calculate_scaling_factors ControlVolume1D_calculate_scaling_factors example_block)"

definition example_area_1 :: block where
  "example_area_1 = set_scaling_factor (Comp 0) 1 example_first_call"

text \<open>
  The example channel with factors supplied by the user: 55 for the area, 9 for the entry of
  \<open>pressure_change_total\<close> at time 0 and 7 for the entry of \<open>pressure_dx\<close> at time 0.
\<close>

definition example_user_factors :: block where
  "example_user_factors =
     set_scaling_factor (Data 2 [0]) 7
       (set_scaling_factor (Data 3 [0]) 9 (set_scaling_factor (Comp 0) 55 example_block))"

section \<open>Properties\<close>

subsection \<open>Ordered sets and the length domain\<close>

lemma first_ContinuousSet: "ContinuousSet xs \<Longrightarrow> first xs = Inr (hd xs)"
  by (cases xs) (auto simp: ContinuousSet_def first_def)




lemma ContinuousSet_distinct: "ContinuousSet xs \<Longrightarrow> distinct xs"
  by (simp add: ContinuousSet_def strict_sorted_iff)

lemma ContinuousSet_hd_Min: "ContinuousSet xs \<Longrightarrow> hd xs = Min (set xs)"
proof (cases xs)
  case Nil
  assume "ContinuousSet xs"
  with Nil show ?thesis by (simp add: ContinuousSet_def)
next
  case (Cons y ys)
  assume "ContinuousSet xs"
  with Cons have "\<forall>z \<in> set ys. y \<le> z" by (auto simp: ContinuousSet_def)
  then have "Min (insert y (set ys)) = y" by (intro Min_insert2) auto
  with Cons show ?thesis by simp
qed

subsection \<open>add_isothermal_conditions\<close>

lemma Constraint_all:
  assumes "\<And>t x. (t, x) \<in> set ixs \<Longrightarrow>
     rule t x = (if x = fe then Inr Skip else Inr (Equality (temperature t fe) (temperature t x)))"
  shows "Constraint rule ixs =
     Inr (map (\<lambda>(t, x). ((t, x), (temperature t fe, temperature t x)))
              (filter (\<lambda>(t, x). x \<noteq> fe) ixs))"
  using assms by (induction ixs) auto

lemma length_filter_product:
  assumes "distinct xs" "fe \<in> set xs"
  shows "length (filter (\<lambda>(t, x). x \<noteq> fe) (List.product ts xs)) = length ts * (length xs - 1)"
proof -
  have one: "length (filter (\<lambda>x. x \<noteq> fe) xs) = length xs - 1"
    using assms
  proof (induction xs)
    case Nil
    then show ?case by simp
  next
    case (Cons a xs)
    show ?case
    proof (cases "a = fe")
      case True
      with Cons.prems have "filter (\<lambda>x. x \<noteq> fe) xs = xs" by (auto simp: filter_id_conv)
      with True show ?thesis by simp
    next
      case False
      with Cons have "length (filter (\<lambda>x. x \<noteq> fe) xs) = length xs - 1" "xs \<noteq> []" by auto
      with False show ?thesis by (cases xs) auto
    qed
  qed
  have row: "length (filter ((\<lambda>(t, x). x \<noteq> fe) \<circ> Pair t) xs) = length xs - 1" for t :: 'b
    using one by (simp add: comp_def)
  show ?thesis by (induction ts) (simp_all add: row)
qed

lemma eq_feed_isothermal_rule_eval:
  assumes "ContinuousSet (length_domain b)" "properties b = Some ks"
    "set (List.product (time b) (length_domain b)) \<subseteq> set ks"
    "(t, x) \<in> set (List.product (time b) (length_domain b))"
  shows "eq_feed_isothermal_rule b t x =
    (if x = hd (length_domain b) then Inr Skip
     else Inr (Equality (temperature t (hd (length_domain b))) (temperature t x)))"
proof -
  have "hd (length_domain b) \<in> set (length_domain b)"
    using assms(1) by (simp add: ContinuousSet_def)
  with assms(3,4) have "(t, hd (length_domain b)) \<in> set ks" "(t, x) \<in> set ks" by auto
  then show ?thesis
    using assms(1,2)
    by (simp add: eq_feed_isothermal_rule_def first_ContinuousSet properties_temperature_def getattr_def)
qed

lemma map_of_constraints:
  "map_of (map (\<lambda>(t, x). ((t, x), (temperature t fe, temperature t x))) ixs) (t, x) =
     (if (t, x) \<in> set ixs then Some (temperature t fe, temperature t x) else None)"
  by (induction ixs) auto

lemma add_isothermal_conditions_again:
  assumes "super_add_isothermal_conditions self = Inr self1"
    and "eq_feed_isothermal self1 = Some cs"
  shows "add_isothermal_conditions super_add_isothermal_conditions self = Inl RuntimeError"
  using assms by (simp add: add_isothermal_conditions_def hasattr_def)

text \<open>
  Claim C1. When the inherited method has returned a block that has no \<open>eq_feed_isothermal\<close>
  yet, the length domain is a \<open>ContinuousSet\<close>, the time points are distinct and the state
  blocks exist at every time and point, \<open>add_isothermal_conditions\<close> returns, and
  \<open>eq_feed_isothermal\<close> has an entry at the index \<open>(t, x)\<close> exactly when \<open>x\<close> is not the
  minimum of the length domain. That entry is the equality of the temperature at
  \<open>(t, first)\<close> and at \<open>(t, x)\<close>, which a temperature field satisfies exactly when
  \<open>T t x = T t first\<close>. The indices of the entries are distinct and lie in the index set, and
  their number is the number of time points times the number of points of the length domain
  less one.
\<close>

theorem add_isothermal_conditions_constraints:
  assumes sup: "super_add_isothermal_conditions self = Inr self1"
    and fresh: "eq_feed_isothermal self1 = None"
    and dom: "ContinuousSet (length_domain self1)"
    and tm: "distinct (time self1)"
    and props: "properties self1 = Some ks"
      "set (List.product (time self1) (length_domain self1)) \<subseteq> set ks"
  shows "\<exists>self' cs.
      add_isothermal_conditions super_add_isothermal_conditions self = Inr self' \<and>
      eq_feed_isothermal self' = Some cs \<and>
      time self' = time self1 \<and> length_domain self' = length_domain self1 \<and>
      (\<forall>t \<in> set (time self'). \<forall>x \<in> set (length_domain self').
         map_of cs (t, x) =
           (if x = Min (set (length_domain self')) then None
            else Some (temperature t (Min (set (length_domain self'))), temperature t x)) \<and>
         (\<forall>c. map_of cs (t, x) = Some c \<longrightarrow>
            (\<forall>T. satisfied T c \<longleftrightarrow> T t x = T t (Min (set (length_domain self')))))) \<and>
      distinct (map fst cs) \<and>
      set (map fst cs) \<subseteq> set (List.product (time self') (length_domain self')) \<and>
      int (length cs) =
        int (length (time self')) * (int (length (length_domain self')) - 1)"
proof -
  let ?ld = "length_domain self1"
  let ?fe = "hd ?ld"
  let ?ixs = "List.product (time self1) ?ld"
  define cs where "cs = map (\<lambda>(t, x). ((t, x), (temperature t ?fe, temperature t x)))
                            (filter (\<lambda>(t, x). x \<noteq> ?fe) ?ixs)"
  define self' where "self' = self1\<lparr>eq_feed_isothermal := Some cs\<rparr>"
  have sel: "eq_feed_isothermal self' = Some cs" "time self' = time self1"
    "length_domain self' = ?ld"
    by (simp_all add: self'_def)
  have fe_Min: "?fe = Min (set ?ld)" using dom by (rule ContinuousSet_hd_Min)
  have fe_in: "?fe \<in> set ?ld" using dom by (simp add: ContinuousSet_def)
  have dl: "distinct ?ld" using dom by (rule ContinuousSet_distinct)
  have ne: "?ld \<noteq> []" using dom by (simp add: ContinuousSet_def)
  have built: "Constraint (eq_feed_isothermal_rule self1) ?ixs = Inr cs"
    unfolding cs_def
    by (rule Constraint_all) (rule eq_feed_isothermal_rule_eval [OF dom props])
  have run: "add_isothermal_conditions super_add_isothermal_conditions self = Inr self'"
    by (simp add: add_isothermal_conditions_def sup fresh hasattr_def built self'_def)
  have keys: "map fst cs = filter (\<lambda>(t, x). x \<noteq> ?fe) ?ixs"
    by (simp add: cs_def comp_def case_prod_beta)
  have dk: "distinct (map fst cs)"
    unfolding keys using tm dl by (simp add: distinct_product)
  have sub: "set (map fst cs) \<subseteq> set (List.product (time self') (length_domain self'))"
    unfolding keys sel by auto
  have "length cs = length (time self1) * (length ?ld - 1)"
    using length_filter_product [OF dl fe_in] by (simp add: cs_def)
  moreover have "int (length ?ld - 1) = int (length ?ld) - 1"
    using ne by (cases ?ld) auto
  ultimately have cnt:
    "int (length cs) = int (length (time self')) * (int (length (length_domain self')) - 1)"
    unfolding sel by simp
  have look: "\<forall>t \<in> set (time self'). \<forall>x \<in> set (length_domain self').
      map_of cs (t, x) =
        (if x = Min (set (length_domain self')) then None
         else Some (temperature t (Min (set (length_domain self'))), temperature t x)) \<and>
      (\<forall>c. map_of cs (t, x) = Some c \<longrightarrow>
         (\<forall>T. satisfied T c \<longleftrightarrow> T t x = T t (Min (set (length_domain self')))))"
    unfolding sel using fe_Min by (auto simp: cs_def map_of_constraints satisfied_def)
  from run sel look dk sub cnt show ?thesis by blast
qed

theorem add_isothermal_conditions_constraints_witness:
  "eq_feed_isothermal example_block = None \<and>
   ContinuousSet (length_domain example_block) \<and> distinct (time example_block) \<and>
   (\<exists>self' cs. add_isothermal_conditions Inr example_block = Inr self' \<and>
      eq_feed_isothermal self' = Some cs \<and> length cs = 4 \<and>
      map_of cs (1, 0) = None \<and>
      map_of cs (1, 1 / 2) = Some (temperature 1 0, temperature 1 (1 / 2)))"
  using add_isothermal_conditions_constraints [of Inr example_block example_block
      "List.product [0, 1] [0, 1 / 2, 1]"]
  by (auto simp: example_block_def ContinuousSet_def)

subsection \<open>apply_transformation and add_state_blocks\<close>




text \<open>
  Claim C9. When the length domain left by the inherited method is a \<open>ContinuousSet\<close>,
  \<open>first_element\<close> is the minimum of the length domain after \<open>apply_transformation\<close> and
  after \<open>add_state_blocks\<close>, for every \<open>information_flow\<close> and whatever the flow direction of
  the block is: neither enters the computation.
\<close>

theorem first_element_minimum:
  assumes dom: "ContinuousSet (length_domain self1)"
  shows "(super_apply_transformation self = Inr self1 \<longrightarrow>
           (\<exists>self'. apply_transformation super_apply_transformation self = Inr self' \<and>
              length_domain self' = length_domain self1 \<and>
              first_element self' = Some (Min (set (length_domain self'))))) \<and>
         (super_add_state_blocks information_flow has_phase_equilibrium self = Inr self1 \<and>
          properties self1 = Some ks \<longrightarrow>
           (\<exists>self'. add_state_blocks super_add_state_blocks information_flow
                      has_phase_equilibrium self = Inr self' \<and>
              length_domain self' = length_domain self1 \<and>
              flow_direction self' = flow_direction self1 \<and>
              first_element self' = Some (Min (set (length_domain self')))))"
  using ContinuousSet_hd_Min [OF dom]
  by (simp add: apply_transformation_def add_state_blocks_def add_interface_stateblock_def
      getattr_def first_ContinuousSet [OF dom] Let_def)

theorem first_element_minimum_witness:
  "ContinuousSet (length_domain example_block) \<and>
   flow_direction example_block = backward \<and>
   (\<exists>self'. apply_transformation Inr example_block = Inr self' \<and>
      first_element self' = Some 0) \<and>
   (\<exists>self'. add_state_blocks build_example backward None example_block = Inr self' \<and>
      first_element self' = Some 0)"
  using first_element_minimum [where ?self1.0 = example_block
      and super_apply_transformation = Inr and self = example_block
      and super_add_state_blocks = build_example and information_flow = backward
      and has_phase_equilibrium = None
      and ks = "List.product (time example_block) (length_domain example_block)"]
  by (auto simp: example_block_def build_example_def ContinuousSet_def)

subsection \<open>calculate_scaling_factors\<close>

lemma values_of_ref: "h \<in> set (values_of b r) \<Longrightarrow> handle_ref h = r"
  by (auto simp: values_of_def split: option.splits)

lemma values_of_scaling [simp]: "values_of (b\<lparr>scaling_factor := f\<rparr>) r = values_of b r"
  by (simp add: values_of_def)

lemma pressure_dx_loop_eq:
  "pressure_dx_loop sf vs b =
     b\<lparr>scaling_factor := gradient_pass sf vs (scaling_factor b)\<rparr>"
  by (induction vs arbitrary: b) (auto simp: set_scaling_factor_def gradient_pass_def fun_eq_iff)

lemma pressure_change_total_loop_eq:
  "pressure_change_total_loop vs b =
     b\<lparr>scaling_factor := total_pass vs (scaling_factor b)\<rparr>"
  by (induction vs arbitrary: b)
     (auto simp: set_scaling_factor_def get_scaling_factor_def total_pass_def fun_eq_iff)

lemma calculate_scaling_factors_result:
  assumes "super_calculate_scaling_factors self = Inr self1"
    and "area self1 = Some a" and "pressure_dx self1 = Some d"
  shows "calculate_scaling_factors super_calculate_scaling_factors self =
     Inr (self1\<lparr>scaling_factor :=
       gradient_pass (if hasattr (dP_dx self1) then 1 / 100000 else 100000) (values_of self1 d)
         (total_pass (case pressure_change_total self1 of None \<Rightarrow> [] | Some p \<Rightarrow> values_of self1 p)
            (area_pass a (scaling_factor self1)))\<rparr>)"
  using assms
  by (auto simp: calculate_scaling_factors_def getattr_def Let_def get_scaling_factor_def
      set_scaling_factor_def pressure_dx_loop_eq pressure_change_total_loop_eq
      gradient_pass_def total_pass_def area_pass_def fun_eq_iff split: option.splits)

lemma calculate_scaling_factors_no_pressure_dx:
  assumes "super_calculate_scaling_factors self = Inr self1"
    and "pressure_dx self1 = None"
  shows "calculate_scaling_factors super_calculate_scaling_factors self = Inl AttributeError"
  using assms
  by (simp add: calculate_scaling_factors_def getattr_def Let_def pressure_change_total_loop_eq
      set_scaling_factor_def split: option.splits)

text \<open>
  Claim C5. When the inherited routine has returned and the area and \<open>pressure_dx\<close> exist,
  \<open>calculate_scaling_factors\<close> returns, and every entry of \<open>pressure_dx\<close> has the factor
  \<open>1e-5\<close> if the attribute \<open>dP_dx\<close> exists and \<open>1e5\<close> if it does not. Nothing else
  selects the factor.
\<close>

theorem pressure_dx_scaling_factor:
  assumes "super_calculate_scaling_factors self = Inr self1"
    and "area self1 = Some a" and "pressure_dx self1 = Some d"
  shows "\<exists>self'. calculate_scaling_factors super_calculate_scaling_factors self = Inr self' \<and>
      pressure_dx self' = Some d \<and> values_of self' d = values_of self1 d \<and>
      dP_dx self' = dP_dx self1 \<and>
      (hasattr (dP_dx self1) \<longrightarrow>
         (\<forall>v \<in> set (values_of self' d). get_scaling_factor self' v = Some (1 / 100000))) \<and>
      (\<not> hasattr (dP_dx self1) \<longrightarrow>
         (\<forall>v \<in> set (values_of self' d). get_scaling_factor self' v = Some 100000))"
proof -
  note res = calculate_scaling_factors_result
    [of super_calculate_scaling_factors self self1 a d, OF assms]
  show ?thesis
    unfolding res using assms(3) by (simp add: get_scaling_factor_def gradient_pass_def)
qed

theorem pressure_dx_scaling_factor_witness:
  "(\<exists>self'. calculate_scaling_factors Inr example_block = Inr self' \<and>
      \<not> hasattr (dP_dx example_block) \<and>
      get_scaling_factor self' (Data 2 [0]) = Some 100000 \<and>
      get_scaling_factor self' (Data 2 [1]) = Some 100000) \<and>
   (\<exists>self'. calculate_scaling_factors Inr (example_block\<lparr>dP_dx := Some 1\<rparr>) = Inr self' \<and>
      hasattr (dP_dx (example_block\<lparr>dP_dx := Some 1\<rparr>)) \<and>
      get_scaling_factor self' (Data 2 [0]) = Some (1 / 100000) \<and>
      get_scaling_factor self' (Data 2 [1]) = Some (1 / 100000))"
  using pressure_dx_scaling_factor [of Inr example_block example_block 0 2]
    pressure_dx_scaling_factor [of Inr "example_block\<lparr>dP_dx := Some 1\<rparr>"
      "example_block\<lparr>dP_dx := Some 1\<rparr>" 0 2]
  by (auto simp: example_block_def hasattr_def values_of_def)

text \<open>
  Claim C7. When \<open>calculate_scaling_factors\<close> returns and the area is another object than
  \<open>pressure_dx\<close> and \<open>pressure_change_total\<close>, the factor of the area is 100 if it was
  exactly 1 after the inherited routine, and otherwise what it was (a value supplied by the
  user, or none).
\<close>

theorem area_scaling_factor:
  assumes "super_calculate_scaling_factors self = Inr self1"
    and "area self1 = Some a" and "pressure_dx self1 = Some d"
    and "a \<noteq> d" and "pressure_change_total self1 \<noteq> Some a"
  shows "\<exists>self'. calculate_scaling_factors super_calculate_scaling_factors self = Inr self' \<and>
      area self' = Some a \<and>
      get_scaling_factor self' (Comp a) =
        (if get_scaling_factor self1 (Comp a) = Some 1 then Some 100
         else get_scaling_factor self1 (Comp a))"
proof -
  have nd: "Comp a \<notin> set (values_of self1 d)"
    using values_of_ref [of "Comp a" self1 d] assms(4) by auto
  have np: "Comp a \<notin> set (case pressure_change_total self1 of None \<Rightarrow> []
                                | Some p \<Rightarrow> values_of self1 p)"
  proof (cases "pressure_change_total self1")
    case None
    then show ?thesis by simp
  next
    case (Some p)
    with assms(5) have "p \<noteq> a" by simp
    with values_of_ref [of "Comp a" self1 p] Some show ?thesis by auto
  qed
  note res = calculate_scaling_factors_result
    [of super_calculate_scaling_factors self self1 a d, OF assms(1-3)]
  show ?thesis
    unfolding res
    using nd np assms(2)
    by (simp add: get_scaling_factor_def gradient_pass_def total_pass_def area_pass_def)
qed

theorem area_scaling_factor_witness:
  "(\<exists>self'. calculate_scaling_factors ControlVolume1D_calculate_scaling_factors example_block
       = Inr self' \<and> get_scaling_factor self' (Comp 0) = Some 100) \<and>
   (\<exists>self'. calculate_scaling_factors ControlVolume1D_calculate_scaling_factors
       (set_scaling_factor (Comp 0) 7 example_block) = Inr self' \<and>
       get_scaling_factor self' (Comp 0) = Some 7)"
proof -
  let ?b1 = "set_scaling_factor (Comp 0) 1 example_block"
  let ?b7 = "set_scaling_factor (Comp 0) 7 example_block"
  have sup1: "ControlVolume1D_calculate_scaling_factors example_block = Inr ?b1"
    and sup7: "ControlVolume1D_calculate_scaling_factors ?b7 = Inr ?b7"
    by (simp_all add: ControlVolume1D_calculate_scaling_factors_def example_block_def
        getattr_def get_scaling_factor_def set_scaling_factor_def)
  have b1: "area ?b1 = Some 0" "pressure_dx ?b1 = Some 2" "pressure_change_total ?b1 \<noteq> Some 0"
    "get_scaling_factor ?b1 (Comp 0) = Some 1"
    and b7: "area ?b7 = Some 0" "pressure_dx ?b7 = Some 2" "pressure_change_total ?b7 \<noteq> Some 0"
    "get_scaling_factor ?b7 (Comp 0) = Some 7"
    by (simp_all add: example_block_def get_scaling_factor_def set_scaling_factor_def)
  from area_scaling_factor [of ControlVolume1D_calculate_scaling_factors example_block ?b1 0 2,
      OF sup1 b1(1,2) _ b1(3)] b1(4)
  have one: "\<exists>self'. calculate_scaling_factors ControlVolume1D_calculate_scaling_factors
      example_block = Inr self' \<and> get_scaling_factor self' (Comp 0) = Some 100"
    by auto
  from area_scaling_factor [of ControlVolume1D_calculate_scaling_factors ?b7 ?b7 0 2,
      OF sup7 b7(1,2) _ b7(3)] b7(4)
  have seven: "\<exists>self'. calculate_scaling_factors ControlVolume1D_calculate_scaling_factors
      ?b7 = Inr self' \<and> get_scaling_factor self' (Comp 0) = Some 7"
    by auto
  from one seven show ?thesis by blast
qed

text \<open>
  Claim C3, as the code has it. Let \<open>s1\<close> be the block before a call of
  \<open>calculate_scaling_factors\<close>, a second call in particular, and let the inherited routine
  keep the attributes and the factors that are set. Then the call returns a block in which
  a factor that the area had is unchanged unless it was exactly 1, and is 100 if it was; a
  factor that an entry of \<open>pressure_change_total\<close> had is unchanged; and every entry of
  \<open>pressure_dx\<close> has the factor \<open>1e-5\<close> or \<open>1e5\<close> by the presence of \<open>dP_dx\<close>, whatever
  it had. The area, \<open>pressure_change_total\<close> and \<open>pressure_dx\<close> are three objects.
\<close>

theorem second_call:
  assumes sup: "super_calculate_scaling_factors s1 = Inr s1'"
    and keep: "keeps_factors s1 s1'"
    and a: "area s1 = Some a" and d: "pressure_dx s1 = Some d"
    and ad: "a \<noteq> d" and pa: "pressure_change_total s1 \<noteq> Some a"
    and pd: "pressure_change_total s1 \<noteq> Some d"
  shows "\<exists>s2. calculate_scaling_factors super_calculate_scaling_factors s1 = Inr s2 \<and>
      (\<forall>sf. get_scaling_factor s1 (Comp a) = Some sf \<longrightarrow>
            get_scaling_factor s2 (Comp a) = Some (if sf = 1 then 100 else sf)) \<and>
      (\<forall>p. pressure_change_total s1 = Some p \<longrightarrow>
         (\<forall>v \<in> set (values_of s1 p). \<forall>sf.
            get_scaling_factor s1 v = Some sf \<longrightarrow> get_scaling_factor s2 v = Some sf)) \<and>
      (\<forall>v \<in> set (values_of s1 d).
         get_scaling_factor s2 v =
           Some (if hasattr (dP_dx s1) then 1 / 100000 else 100000))"
proof -
  from keep have k: "area s1' = Some a" "pressure_dx s1' = Some d" "dP_dx s1' = dP_dx s1"
    "pressure_change_total s1' = pressure_change_total s1" "var_keys s1' = var_keys s1"
    and kf: "\<And>h sf. scaling_factor s1 h = Some sf \<Longrightarrow> scaling_factor s1' h = Some sf"
    using a d by (simp_all add: keeps_factors_def)
  have vals: "values_of s1' r = values_of s1 r" for r
    by (simp add: values_of_def k(5))
  define g :: real where "g = (if hasattr (dP_dx s1) then 1 / 100000 else 100000)"
  define ps where
    "ps = (case pressure_change_total s1 of None \<Rightarrow> [] | Some p \<Rightarrow> values_of s1 p)"
  define F where
    "F = gradient_pass g (values_of s1 d) (total_pass ps (area_pass a (scaling_factor s1')))"
  define s2 where "s2 = s1'\<lparr>scaling_factor := F\<rparr>"
  have run: "calculate_scaling_factors super_calculate_scaling_factors s1 = Inr s2"
    using calculate_scaling_factors_result
      [of super_calculate_scaling_factors s1 s1' a d, OF sup k(1) k(2)]
    by (simp add: s2_def F_def g_def ps_def k vals cong: option.case_cong)
  have sf2: "get_scaling_factor s2 h = F h" for h
    by (simp add: s2_def get_scaling_factor_def)
  have nd: "Comp a \<notin> set (values_of s1 d)"
    using values_of_ref [of "Comp a" s1 d] ad by auto
  have np: "Comp a \<notin> set ps"
  proof (cases "pressure_change_total s1")
    case None
    then show ?thesis by (simp add: ps_def)
  next
    case (Some p)
    with pa have "p \<noteq> a" by simp
    with values_of_ref [of "Comp a" s1 p] Some show ?thesis by (auto simp: ps_def)
  qed
  have area_kept: "get_scaling_factor s2 (Comp a) = Some (if sf = 1 then 100 else sf)"
    if "get_scaling_factor s1 (Comp a) = Some sf" for sf
  proof -
    from that have "scaling_factor s1' (Comp a) = Some sf"
      by (simp add: get_scaling_factor_def kf)
    with nd np show ?thesis
      by (simp add: sf2 F_def gradient_pass_def total_pass_def area_pass_def)
  qed
  have total_kept: "get_scaling_factor s2 v = Some sf"
    if p: "pressure_change_total s1 = Some p" and v: "v \<in> set (values_of s1 p)"
      and s: "get_scaling_factor s1 v = Some sf" for p v sf
  proof -
    from p pd pa have "p \<noteq> d" "p \<noteq> a" by auto
    with values_of_ref [OF v] values_of_ref [of v s1 d]
    have nv: "v \<notin> set (values_of s1 d)" and na: "v \<noteq> Comp a"
      by auto
    from s have "scaling_factor s1' v = Some sf" by (simp add: get_scaling_factor_def kf)
    with nv na show ?thesis
      by (simp add: sf2 F_def gradient_pass_def total_pass_def area_pass_def)
  qed
  have grad: "get_scaling_factor s2 v = Some g" if "v \<in> set (values_of s1 d)" for v
    using that by (simp add: sf2 F_def gradient_pass_def)
  from run area_kept total_kept grad show ?thesis unfolding g_def by blast
qed

theorem second_call_witness:
  "\<exists>s2. calculate_scaling_factors ControlVolume1D_calculate_scaling_factors
       example_user_factors = Inr s2 \<and>
     get_scaling_factor example_user_factors (Comp 0) = Some 55 \<and>
     get_scaling_factor s2 (Comp 0) = Some 55 \<and>
     get_scaling_factor example_user_factors (Data 3 [0]) = Some 9 \<and>
     get_scaling_factor s2 (Data 3 [0]) = Some 9 \<and>
     get_scaling_factor example_user_factors (Data 2 [0]) = Some 7 \<and>
     get_scaling_factor s2 (Data 2 [0]) = Some 100000"
proof -
  let ?b = example_user_factors
  have sup: "ControlVolume1D_calculate_scaling_factors ?b = Inr ?b"
    by (simp add: ControlVolume1D_calculate_scaling_factors_def example_user_factors_def
        example_block_def getattr_def get_scaling_factor_def set_scaling_factor_def)
  have keep: "keeps_factors ?b ?b" by (simp add: keeps_factors_def)
  have a: "area ?b = Some 0" and d: "pressure_dx ?b = Some 2"
    and p: "pressure_change_total ?b = Some 3"
    and pa: "pressure_change_total ?b \<noteq> Some 0" and pd: "pressure_change_total ?b \<noteq> Some 2"
    and v2: "Data 2 [0] \<in> set (values_of ?b 2)" and v3: "Data 3 [0] \<in> set (values_of ?b 3)"
    and no: "\<not> hasattr (dP_dx ?b)"
    by (simp_all add: example_user_factors_def example_block_def set_scaling_factor_def
        values_of_def hasattr_def)
  have g: "get_scaling_factor ?b (Comp 0) = Some 55"
    "get_scaling_factor ?b (Data 3 [0]) = Some 9"
    "get_scaling_factor ?b (Data 2 [0]) = Some 7"
    by (simp_all add: example_user_factors_def example_block_def set_scaling_factor_def
        get_scaling_factor_def)
  from second_call [of ControlVolume1D_calculate_scaling_factors ?b ?b 0 2,
      OF sup keep a d _ pa pd]
  obtain s2 where
    run: "calculate_scaling_factors ControlVolume1D_calculate_scaling_factors ?b = Inr s2"
    and ar: "\<forall>sf. get_scaling_factor ?b (Comp 0) = Some sf \<longrightarrow>
               get_scaling_factor s2 (Comp 0) = Some (if sf = 1 then 100 else sf)"
    and tot: "\<forall>p. pressure_change_total ?b = Some p \<longrightarrow>
         (\<forall>v \<in> set (values_of ?b p). \<forall>sf.
            get_scaling_factor ?b v = Some sf \<longrightarrow> get_scaling_factor s2 v = Some sf)"
    and gr: "\<forall>v \<in> set (values_of ?b 2).
         get_scaling_factor s2 v = Some (if hasattr (dP_dx ?b) then 1 / 100000 else 100000)"
    by auto
  from ar g(1) have "get_scaling_factor s2 (Comp 0) = Some 55" by simp
  moreover from tot p v3 g(2) have "get_scaling_factor s2 (Data 3 [0]) = Some 9" by simp
  moreover from gr v2 no have "get_scaling_factor s2 (Data 2 [0]) = Some 100000" by simp
  ultimately show ?thesis using run g by blast
qed

lemma example_first_call_eq:
  "calculate_scaling_factors ControlVolume1D_calculate_scaling_factors example_block =
     Inr (example_block\<lparr>scaling_factor :=
       (\<lambda>h. if h = Data 2 [0] \<or> h = Data 2 [1] then Some 100000
            else if h = Data 3 [0] \<or> h = Data 3 [1] then Some (1 / 10000)
            else if h = Comp 0 then Some 100 else None)\<rparr>)"
  by (simp add: calculate_scaling_factors_def ControlVolume1D_calculate_scaling_factors_def
      example_block_def getattr_def hasattr_def get_scaling_factor_def set_scaling_factor_def
      values_of_def Let_def fun_eq_iff)

text \<open>
  Claim C3, as it is stated, fails: after a first call, a factor of the area that is set to
  exactly 1 is changed to 100 by the second call.
\<close>

theorem second_call_changes_area_factor:
  "\<not> isl (calculate_scaling_factors ControlVolume1D_calculate_scaling_factors example_block) \<and>
   get_scaling_factor example_area_1 (Comp 0) = Some 1 \<and>
   \<not> isl (calculate_scaling_factors ControlVolume1D_calculate_scaling_factors example_area_1) \<and>
   get_scaling_factor
     (projr (calculate_scaling_factors ControlVolume1D_calculate_scaling_factors example_area_1))
     (Comp 0) = Some 100"
proof -
  let ?CV = ControlVolume1D_calculate_scaling_factors
  have fc: "example_first_call = example_block\<lparr>scaling_factor :=
       (\<lambda>h. if h = Data 2 [0] \<or> h = Data 2 [1] then Some 100000
            else if h = Data 3 [0] \<or> h = Data 3 [1] then Some (1 / 10000)
            else if h = Comp 0 then Some 100 else None)\<rparr>"
    by (simp only: example_first_call_def example_first_call_eq sum.sel)
  have b: "area example_area_1 = Some 0" "pressure_dx example_area_1 = Some 2"
    "pressure_change_total example_area_1 = Some 3"
    "scaling_factor example_area_1 (Comp 0) = Some 1"
    "var_keys example_area_1 3 = Some [[0], [1]]" "var_keys example_area_1 2 = Some [[0], [1]]"
    by (simp_all add: example_area_1_def fc set_scaling_factor_def example_block_def)
  have sup: "?CV example_area_1 = Inr example_area_1"
    by (simp add: ControlVolume1D_calculate_scaling_factors_def getattr_def
        get_scaling_factor_def b)
  note res = calculate_scaling_factors_result [of ?CV example_area_1 example_area_1 0 2,
      OF sup b(1) b(2)]
  have "get_scaling_factor (projr (calculate_scaling_factors ?CV example_area_1)) (Comp 0)
      = Some 100"
    by (simp add: res get_scaling_factor_def gradient_pass_def total_pass_def area_pass_def
        values_of_def b)
  moreover have "\<not> isl (calculate_scaling_factors ?CV example_area_1)"
    by (simp add: res)
  moreover have "\<not> isl (calculate_scaling_factors ?CV example_block)"
    by (simp add: example_first_call_eq)
  moreover have "get_scaling_factor example_area_1 (Comp 0) = Some 1"
    by (simp add: get_scaling_factor_def b)
  ultimately show ?thesis by simp
qed

text \<open>
  Claim C10. When the inherited routine has returned a block without \<open>pressure_dx\<close>,
  \<open>calculate_scaling_factors\<close> raises \<open>AttributeError\<close>, whether \<open>dP_dx\<close> exists or not;
  a block without \<open>pressure_change_total\<close> is no error.
\<close>

theorem pressure_dx_unguarded:
  assumes "super_calculate_scaling_factors self = Inr self1"
  shows "(pressure_dx self1 = None \<longrightarrow>
           calculate_scaling_factors super_calculate_scaling_factors self = Inl AttributeError) \<and>
         (pressure_change_total self1 = None \<and> area self1 = Some a \<and>
          pressure_dx self1 = Some d \<longrightarrow>
           (\<exists>self'. calculate_scaling_factors super_calculate_scaling_factors self = Inr self'))"
  using calculate_scaling_factors_no_pressure_dx [of super_calculate_scaling_factors self self1]
    calculate_scaling_factors_result [of super_calculate_scaling_factors self self1 a d]
    assms
  by simp

theorem pressure_dx_unguarded_witness:
  "calculate_scaling_factors Inr (example_block\<lparr>pressure_dx := None\<rparr>) = Inl AttributeError \<and>
   calculate_scaling_factors Inr (example_block\<lparr>pressure_dx := None, dP_dx := Some 1\<rparr>)
     = Inl AttributeError \<and>
   (\<exists>self'. calculate_scaling_factors Inr (example_block\<lparr>pressure_change_total := None\<rparr>)
     = Inr self')"
  using pressure_dx_unguarded [of Inr "example_block\<lparr>pressure_dx := None\<rparr>"
      "example_block\<lparr>pressure_dx := None\<rparr>"]
    pressure_dx_unguarded [of Inr "example_block\<lparr>pressure_dx := None, dP_dx := Some 1\<rparr>"
      "example_block\<lparr>pressure_dx := None, dP_dx := Some 1\<rparr>"]
    pressure_dx_unguarded [of Inr "example_block\<lparr>pressure_change_total := None\<rparr>"
      "example_block\<lparr>pressure_change_total := None\<rparr>" 0 2]
  by (simp add: example_block_def)

subsection \<open>_add_pressure_change and add_total_enthalpy_balances\<close>

text \<open>
  Claim C6. When \<open>deltaP\<close> exists, \<open>_add_pressure_change\<close> returns for every
  \<open>pressure_change_type\<close>, and the only change is that \<open>dP_dx\<close> is bound to the object of
  \<open>deltaP\<close>: no variable and no constraint is added, and a value written through one of
  the two names is read through the other.
\<close>

theorem add_pressure_change_alias:
  assumes "deltaP self = Some r"
  shows "\<exists>self'. add_pressure_change pressure_change_type self = Inr self' \<and>
      self' = self\<lparr>dP_dx := Some r\<rparr> \<and>
      dP_dx self' = deltaP self' \<and> deltaP self' = deltaP self \<and>
      n_vars self' = n_vars self \<and> var_keys self' = var_keys self \<and>
      eq_feed_isothermal self' = eq_feed_isothermal self \<and>
      n_constraints self' = n_constraints self \<and>
      (\<forall>rd ra k v. deltaP self' = Some rd \<and> dP_dx self' = Some ra \<longrightarrow>
         get_value rd k (set_value ra k v self') = Some v \<and>
         get_value ra k (set_value rd k v self') = Some v)"
  using assms
  by (simp add: add_pressure_change_def getattr_def n_constraints_def get_value_def set_value_def)

theorem add_pressure_change_alias_witness:
  "\<exists>self'. add_pressure_change () example_block = Inr self' \<and>
     dP_dx self' = Some 1 \<and> deltaP self' = Some 1 \<and> n_vars self' = 4 \<and>
     get_value (the (deltaP self')) [0] (set_value (the (dP_dx self')) [0] 42 self') = Some 42"
  using add_pressure_change_alias [of example_block 1 "()"]
  by (auto simp: example_block_def)

text \<open>
  Claim C8. \<open>add_total_enthalpy_balances\<close> returns \<open>None\<close> and leaves the block as it is,
  for every argument and every block: the constraints and the degrees of freedom are the same.
\<close>

theorem add_total_enthalpy_balances_noop:
  "add_total_enthalpy_balances kwrags self = (None, self) \<and>
   fst (add_total_enthalpy_balances kwrags self) = None \<and>
   eq_feed_isothermal (snd (add_total_enthalpy_balances kwrags self)) = eq_feed_isothermal self \<and>
   n_constraints (snd (add_total_enthalpy_balances kwrags self)) = n_constraints self \<and>
   degrees_of_freedom (snd (add_total_enthalpy_balances kwrags self)) = degrees_of_freedom self"
  by (simp add: add_total_enthalpy_balances_def)

subsection \<open>Configuration validation\<close>









end
